theory Spec2Isabelle
  imports Main "HOL-Library.Sublist"
begin

section \<open>Value objects\<close>

text \<open>
  Go's \<open>int\<close> is modelled as \<open>int\<close>: the value objects only store and compare their
  fields, no arithmetic is done on them.
\<close>

subsection \<open>ComplexityScore (domain/valueobjects/complexity.go)\<close>

record ComplexityScore =
  cyclomatic :: int
  cognitive :: int

datatype error = Error string

definition NewComplexityScore :: "int \<Rightarrow> int \<Rightarrow> error + ComplexityScore" where
  "NewComplexityScore cyc cog =
     (if cyc < 1 then Inl (Error ''cyclomatic complexity must be >= 1'')
      else if cog < 0 then Inl (Error ''cognitive complexity must be >= 0'')
      else Inr \<lparr>cyclomatic = cyc, cognitive = cog\<rparr>)"

definition IsHighComplexity :: "ComplexityScore \<Rightarrow> bool" where
  "IsHighComplexity c = (cyclomatic c > 15 \<or> cognitive c > 20)"

subsection \<open>SeverityLevel and AnalysisConfiguration\<close>

datatype SeverityLevel = SeverityInfo | SeverityWarning | SeverityError | SeverityCritical

record AnalysisConfiguration =
  maxCyclomaticComplexity :: int
  maxCognitiveComplexity :: int
  maxFunctionLength :: int
  enableSmellDetection :: bool
  severityThreshold :: SeverityLevel

definition DefaultAnalysisConfiguration :: AnalysisConfiguration where
  "DefaultAnalysisConfiguration =
     \<lparr>maxCyclomaticComplexity = 15, maxCognitiveComplexity = 20, maxFunctionLength = 80,
      enableSmellDetection = True, severityThreshold = SeverityWarning\<rparr>"

definition NewAnalysisConfiguration ::
  "int \<Rightarrow> int \<Rightarrow> int \<Rightarrow> bool \<Rightarrow> SeverityLevel \<Rightarrow> error + AnalysisConfiguration" where
  "NewAnalysisConfiguration maxCyclomatic maxCognitive maxLength enableSmells severity =
     (if maxCyclomatic < 1 then Inl (Error ''max cyclomatic complexity must be >= 1'')
      else if maxCognitive < 0 then Inl (Error ''max cognitive complexity must be >= 0'')
      else if maxLength < 1 then Inl (Error ''max function length must be >= 1'')
      else Inr \<lparr>maxCyclomaticComplexity = maxCyclomatic, maxCognitiveComplexity = maxCognitive,
                maxFunctionLength = maxLength, enableSmellDetection = enableSmells,
                severityThreshold = severity\<rparr>)"

definition WithMaxCyclomaticComplexity :: "AnalysisConfiguration \<Rightarrow> int \<Rightarrow> AnalysisConfiguration" where
  "WithMaxCyclomaticComplexity c mx =
     \<lparr>maxCyclomaticComplexity = mx, maxCognitiveComplexity = maxCognitiveComplexity c,
      maxFunctionLength = maxFunctionLength c, enableSmellDetection = enableSmellDetection c,
      severityThreshold = severityThreshold c\<rparr>"

definition WithMaxCognitiveComplexity :: "AnalysisConfiguration \<Rightarrow> int \<Rightarrow> AnalysisConfiguration" where
  "WithMaxCognitiveComplexity c mx =
     \<lparr>maxCyclomaticComplexity = maxCyclomaticComplexity c, maxCognitiveComplexity = mx,
      maxFunctionLength = maxFunctionLength c, enableSmellDetection = enableSmellDetection c,
      severityThreshold = severityThreshold c\<rparr>"

definition WithMaxFunctionLength :: "AnalysisConfiguration \<Rightarrow> int \<Rightarrow> AnalysisConfiguration" where
  "WithMaxFunctionLength c mx =
     \<lparr>maxCyclomaticComplexity = maxCyclomaticComplexity c,
      maxCognitiveComplexity = maxCognitiveComplexity c,
      maxFunctionLength = mx, enableSmellDetection = enableSmellDetection c,
      severityThreshold = severityThreshold c\<rparr>"

definition WithSmellDetection :: "AnalysisConfiguration \<Rightarrow> bool \<Rightarrow> AnalysisConfiguration" where
  "WithSmellDetection c enabled =
     \<lparr>maxCyclomaticComplexity = maxCyclomaticComplexity c,
      maxCognitiveComplexity = maxCognitiveComplexity c,
      maxFunctionLength = maxFunctionLength c, enableSmellDetection = enabled,
      severityThreshold = severityThreshold c\<rparr>"

text \<open>The field invariants the constructor enforces.\<close>

definition configInvariant :: "AnalysisConfiguration \<Rightarrow> bool" where
  "configInvariant c =
     (maxCyclomaticComplexity c \<ge> 1 \<and> maxCognitiveComplexity c \<ge> 0 \<and> maxFunctionLength c \<ge> 1)"

text \<open>
  The public surface as a language of operations: one "with-X" call each, applied in
  sequence to a configuration.
\<close>

datatype withOp =
    OpMaxCyclomatic int
  | OpMaxCognitive int
  | OpMaxFunctionLength int
  | OpSmellDetection bool

fun applyWith :: "AnalysisConfiguration \<Rightarrow> withOp \<Rightarrow> AnalysisConfiguration" where
  "applyWith c (OpMaxCyclomatic n) = WithMaxCyclomaticComplexity c n"
| "applyWith c (OpMaxCognitive n) = WithMaxCognitiveComplexity c n"
| "applyWith c (OpMaxFunctionLength n) = WithMaxFunctionLength c n"
| "applyWith c (OpSmellDetection b) = WithSmellDetection c b"

definition applyAll :: "AnalysisConfiguration \<Rightarrow> withOp list \<Rightarrow> AnalysisConfiguration" where
  "applyAll c ops = fold (\<lambda>op c'. applyWith c' op) ops c"

text \<open>An operation whose argument is within the bound of the field it sets.\<close>

fun withinBounds :: "withOp \<Rightarrow> bool" where
  "withinBounds (OpMaxCyclomatic n) = (n \<ge> 1)"
| "withinBounds (OpMaxCognitive n) = (n \<ge> 0)"
| "withinBounds (OpMaxFunctionLength n) = (n \<ge> 1)"
| "withinBounds (OpSmellDetection b) = True"

section \<open>The syntax tree and its traversal\<close>

text \<open>
  The analysis passes consume trees built by \<open>go/parser\<close>. The tree is modelled as one
  datatype, as \<open>ast.Node\<close> is one interface: a constructor for every node kind that some
  pass distinguishes, with the fields the passes read, and \<open>Other\<close> for every other kind
  (literals, types, index expressions, declarations, ...) with its children in traversal
  order. \<open>NilNode\<close> is Go's \<open>nil\<close> in an optional field (\<open>Init\<close>, \<open>Else\<close>, the \<open>Comm\<close>
  of a default clause, the \<open>Body\<close> of an external function).
\<close>

datatype token = ARROW | LAND | LOR | OtherOp

type_synonym pos = nat

datatype node =
    NilNode
  | Ident string
  | Other "node list"
  | UnaryExpr token node
  | BinaryExpr node token node
  | CallExpr node "node list"
  | SelectorExpr node string
  | FuncLit node node
  | BlockStmt "node list"
  | ExprStmt node
  | SendStmt node node
  | AssignStmt "node list" "node list"
  | GoStmt pos node
  | DeferStmt node
  | ReturnStmt "node list"
  | IfStmt node node node node
  | ForStmt node node node node
  | RangeStmt node node node node
  | SwitchStmt node node node
  | TypeSwitchStmt node node node
  | SelectStmt node
  | CommClause node "node list"
  | CaseClause "node list" "node list"
  | FuncDecl string pos node node

text \<open>
  The children of a node in the order \<open>ast.Walk\<close> visits them: \<open>UnaryExpr op x\<close> is
  (Op, X), \<open>CallExpr f args\<close> is (Fun, Args), \<open>SelectorExpr x sel\<close> is (X, Sel.Name),
  \<open>FuncLit ty body\<close> is (Type, Body), \<open>GoStmt p call\<close> is (Pos(), Call),
  \<open>IfStmt i c b e\<close> is (Init, Cond, Body, Else), \<open>ForStmt i c p b\<close> is
  (Init, Cond, Post, Body), \<open>RangeStmt k v x b\<close> is (Key, Value, X, Body),
  \<open>SwitchStmt i t b\<close> is (Init, Tag, Body), \<open>TypeSwitchStmt i a b\<close> is
  (Init, Assign, Body), \<open>CommClause c b\<close> is (Comm, Body), \<open>CaseClause xs b\<close> is
  (List, Body), \<open>FuncDecl name p ty body\<close> is (Name.Name, Pos(), Type, Body); the
  receiver list of a method, which holds no statement or expression, is left out.
\<close>

fun children :: "node \<Rightarrow> node list" where
  "children NilNode = []"
| "children (Ident name) = []"
| "children (Other xs) = xs"
| "children (UnaryExpr op x) = [x]"
| "children (BinaryExpr x op y) = [x, y]"
| "children (CallExpr f args) = f # args"
| "children (SelectorExpr x sel) = [x, Ident sel]"
| "children (FuncLit ty body) = [ty, body]"
| "children (BlockStmt xs) = xs"
| "children (ExprStmt x) = [x]"
| "children (SendStmt ch v) = [ch, v]"
| "children (AssignStmt lhs rhs) = lhs @ rhs"
| "children (GoStmt p call) = [call]"
| "children (DeferStmt call) = [call]"
| "children (ReturnStmt rs) = rs"
| "children (IfStmt i c b e) = [i, c, b, e]"
| "children (ForStmt i c p b) = [i, c, p, b]"
| "children (RangeStmt k v x b) = [k, v, x, b]"
| "children (SwitchStmt i t b) = [i, t, b]"
| "children (TypeSwitchStmt i a b) = [i, a, b]"
| "children (SelectStmt b) = [b]"
| "children (CommClause c b) = c # b"
| "children (CaseClause xs b) = xs @ b"
| "children (FuncDecl name p ty body) = [Ident name, ty, body]"

lemma size_children: "c \<in> set (children n) \<Longrightarrow> size c < size n"
  by (cases n)
     (auto simp: less_Suc_eq_le
           dest: size_list_estimation'[where f = size and y = "size c", OF _ order_refl])

text \<open>
  \<open>ast.Inspect(node, f)\<close> for a callback that always returns \<open>true\<close>: depth-first,
  parents before children, \<open>nil\<close> fields skipped. The variables the Go closure captures
  and updates are the state \<open>s\<close>. (After the children of a node, \<open>ast.Inspect\<close> calls
  the callback once more with \<open>nil\<close>; every callback of this program is a type switch
  that ignores \<open>nil\<close>.)
\<close>

function inspect :: "(node \<Rightarrow> 's \<Rightarrow> 's) \<Rightarrow> node \<Rightarrow> 's \<Rightarrow> 's" where
  "inspect f n s = (if n = NilNode then s else fold (inspect f) (children n) (f n s))"
  by pat_completeness auto
termination
  by (relation "measure (\<lambda>(f, n, s). size n)") (auto simp: size_children)

text \<open>The nodes of a tree in the order \<open>ast.Inspect\<close> visits them.\<close>

function preorder :: "node \<Rightarrow> node list" where
  "preorder n = (if n = NilNode then [] else n # concat (map preorder (children n)))"
  by pat_completeness auto
termination
  by (relation "measure size") (auto simp: size_children)

declare inspect.simps [simp del] preorder.simps [simp del]

text \<open>
  Go's type assertions \<open>x, ok := n.(*ast.T)\<close>: \<open>Some\<close> of the fields the program reads
  when the node is of that kind, \<open>None\<close> when \<open>ok\<close> is false.
\<close>

fun asIdent :: "node \<Rightarrow> string option" where
  "asIdent (Ident name) = Some name"
| "asIdent n = None"

fun asSelectorExpr :: "node \<Rightarrow> (node \<times> string) option" where
  "asSelectorExpr (SelectorExpr x sel) = Some (x, sel)"
| "asSelectorExpr n = None"

fun asCallExpr :: "node \<Rightarrow> (node \<times> node list) option" where
  "asCallExpr (CallExpr fn args) = Some (fn, args)"
| "asCallExpr n = None"

fun asUnaryExpr :: "node \<Rightarrow> (token \<times> node) option" where
  "asUnaryExpr (UnaryExpr op x) = Some (op, x)"
| "asUnaryExpr n = None"

fun asExprStmt :: "node \<Rightarrow> node option" where
  "asExprStmt (ExprStmt x) = Some x"
| "asExprStmt n = None"

fun asFuncLit :: "node \<Rightarrow> node option" where
  "asFuncLit (FuncLit ty body) = Some body"
| "asFuncLit n = None"

fun asCommClause :: "node \<Rightarrow> (node \<times> node list) option" where
  "asCommClause (CommClause comm body) = Some (comm, body)"
| "asCommClause n = None"

fun asIfStmt :: "node \<Rightarrow> (node \<times> node \<times> node \<times> node) option" where
  "asIfStmt (IfStmt i c b e) = Some (i, c, b, e)"
| "asIfStmt n = None"

fun asGoStmt :: "node \<Rightarrow> (pos \<times> node) option" where
  "asGoStmt (GoStmt p call) = Some (p, call)"
| "asGoStmt n = None"

text \<open>A selector expression whose \<open>X\<close> is an identifier: (\<open>X.Name\<close>, \<open>Sel.Name\<close>).\<close>

definition identSelector :: "node \<Rightarrow> (string \<times> string) option" where
  "identSelector n =
     (case asSelectorExpr n of
        Some (x, sel) \<Rightarrow> (case asIdent x of Some name \<Rightarrow> Some (name, sel) | None \<Rightarrow> None)
      | None \<Rightarrow> None)"

section \<open>Complexity Calculator (presentation/cli/analyzer.go, package services)\<close>

fun isBranchNode :: "node \<Rightarrow> bool" where
  "isBranchNode (IfStmt i c b e) = True"
| "isBranchNode (ForStmt i c p b) = True"
| "isBranchNode (RangeStmt k v x b) = True"
| "isBranchNode (SwitchStmt i t b) = True"
| "isBranchNode (TypeSwitchStmt i a b) = True"
| "isBranchNode (SelectStmt b) = True"
| "isBranchNode n = False"

fun isShortCircuit :: "node \<Rightarrow> bool" where
  "isShortCircuit (BinaryExpr x op y) = (op = LAND \<or> op = LOR)"
| "isShortCircuit n = False"

text \<open>The callback of \<open>calculateCyclomaticComplexity\<close>; the state is \<open>complexity\<close>.\<close>

fun cyclomaticVisit :: "node \<Rightarrow> int \<Rightarrow> int" where
  "cyclomaticVisit (IfStmt i c b e) complexity = complexity + 1"
| "cyclomaticVisit (ForStmt i c p b) complexity = complexity + 1"
| "cyclomaticVisit (RangeStmt k v x b) complexity = complexity + 1"
| "cyclomaticVisit (SwitchStmt i t b) complexity = complexity + 1"
| "cyclomaticVisit (TypeSwitchStmt i a b) complexity = complexity + 1"
| "cyclomaticVisit (SelectStmt b) complexity = complexity + 1"
| "cyclomaticVisit (BinaryExpr x op y) complexity =
     (if op = LAND \<or> op = LOR then complexity + 1 else complexity)"
| "cyclomaticVisit n complexity = complexity"

definition calculateCyclomaticComplexity :: "node \<Rightarrow> int" where
  "calculateCyclomaticComplexity node = inspect cyclomaticVisit node 1"



text \<open>
  \<open>calculateCognitiveComplexity(node, nesting)\<close>. The closure captures \<open>complexity\<close>
  and the parameter \<open>nesting\<close>; both are the state of the walk. \<open>n != node\<close> compares
  pointers: it is false at the first node visited (the root) and true at every other,
  which the flag \<open>isRoot\<close> records. For an \<open>else if\<close>, the function calls itself on a
  block it builds from the chained statement's condition and body, with the current value
  of \<open>nesting\<close>; the walk then goes on into the children of the \<open>if\<close>, its \<open>Else\<close>
  among them.
\<close>

fun weight :: "node \<Rightarrow> nat" where
  "weight NilNode = 0"
| "weight (Ident name) = 1"
| "weight (Other xs) = 1 + sum_list (map weight xs)"
| "weight (UnaryExpr op x) = 1 + weight x"
| "weight (BinaryExpr x op y) = 1 + weight x + weight y"
| "weight (CallExpr f args) = 1 + weight f + sum_list (map weight args)"
| "weight (SelectorExpr x sel) = 2 + weight x"
| "weight (FuncLit ty body) = 1 + weight ty + weight body"
| "weight (BlockStmt xs) = 1 + sum_list (map weight xs)"
| "weight (ExprStmt x) = 1 + weight x"
| "weight (SendStmt ch v) = 1 + weight ch + weight v"
| "weight (AssignStmt lhs rhs) = 1 + sum_list (map weight lhs) + sum_list (map weight rhs)"
| "weight (GoStmt p call) = 1 + weight call"
| "weight (DeferStmt call) = 1 + weight call"
| "weight (ReturnStmt rs) = 1 + sum_list (map weight rs)"
| "weight (IfStmt i c b e) = 3 + weight i + weight c + weight b + weight e"
| "weight (ForStmt i c p b) = 1 + weight i + weight c + weight p + weight b"
| "weight (RangeStmt k v x b) = 1 + weight k + weight v + weight x + weight b"
| "weight (SwitchStmt i t b) = 1 + weight i + weight t + weight b"
| "weight (TypeSwitchStmt i a b) = 1 + weight i + weight a + weight b"
| "weight (SelectStmt b) = 1 + weight b"
| "weight (CommClause c b) = 1 + weight c + sum_list (map weight b)"
| "weight (CaseClause xs b) = 1 + sum_list (map weight xs) + sum_list (map weight b)"
| "weight (FuncDecl name p ty body) = 2 + weight ty + weight body"

lemma weight_member: "x \<in> set xs \<Longrightarrow> weight x \<le> sum_list (map weight xs)"
  by (induction xs) auto

lemma weight_children: "c \<in> set (children n) \<Longrightarrow> weight c < weight n"
  by (cases n) (auto simp: less_Suc_eq_le dest: weight_member)

text \<open>The chained \<open>if\<close> of an \<open>else if\<close>: its condition and body.\<close>

definition elseIf :: "node \<Rightarrow> (node \<times> node) option" where
  "elseIf n =
     (case asIfStmt n of
        Some (i, c, b, e) \<Rightarrow>
          (case asIfStmt e of Some (i', c', b', e') \<Rightarrow> Some (c', b') | None \<Rightarrow> None)
      | None \<Rightarrow> None)"

lemma weight_elseIf:
  "elseIf n = Some (c, b) \<Longrightarrow> weight (BlockStmt [IfStmt NilNode c b NilNode]) < weight n"
  by (auto simp: elseIf_def split: option.splits elim!: asIfStmt.elims)

function cognitiveWalk :: "bool \<Rightarrow> node \<Rightarrow> int \<times> int \<Rightarrow> int \<times> int" where
  "cognitiveWalk isRoot n (complexity, nesting) =
     (if n = NilNode then (complexity, nesting)
      else fold (cognitiveWalk False) (children n)
        (case n of
           IfStmt i c b e \<Rightarrow>
             (case elseIf n of
                Some (c', b') \<Rightarrow>
                  (complexity + (1 + nesting)
                     + fst (cognitiveWalk True (BlockStmt [IfStmt NilNode c' b' NilNode])
                              (0, nesting)),
                   nesting)
              | None \<Rightarrow> (complexity + (1 + nesting), nesting))
         | ForStmt i c p b \<Rightarrow> (complexity + (1 + nesting), nesting)
         | RangeStmt k v x b \<Rightarrow> (complexity + (1 + nesting), nesting)
         | SwitchStmt i t b \<Rightarrow> (complexity + (1 + nesting), nesting)
         | TypeSwitchStmt i a b \<Rightarrow> (complexity + (1 + nesting), nesting)
         | SelectStmt b \<Rightarrow> (complexity + (1 + nesting), nesting)
         | BinaryExpr x op y \<Rightarrow>
             (if op = LAND \<or> op = LOR then (complexity + (1 + nesting), nesting)
              else (complexity, nesting))
         | BlockStmt xs \<Rightarrow>
             (if \<not> isRoot then (complexity, nesting + 1) else (complexity, nesting))
         | _ \<Rightarrow> (complexity, nesting)))"
  by pat_completeness auto
termination
  by (relation "measure (\<lambda>(r, n, s). weight n)") (auto simp: weight_children dest: weight_elseIf)

declare cognitiveWalk.simps [simp del]

definition calculateCognitiveComplexity :: "node \<Rightarrow> int \<Rightarrow> int" where
  "calculateCognitiveComplexity node nesting = fst (cognitiveWalk True node (0, nesting))"

definition CalculateComplexity :: "node \<Rightarrow> error + ComplexityScore" where
  "CalculateComplexity node =
     NewComplexityScore (calculateCyclomaticComplexity node) (calculateCognitiveComplexity node 0)"

text \<open>
  The reference definition of cognitive complexity, from the words of the specification:
  the nesting counter is a parameter, so it has its previous value again after a block;
  it is one higher inside every block but the outermost; each branching construct and
  each short-circuit operator contributes \<open>1 + nesting\<close>; the chained \<open>if\<close> of an
  \<open>else if\<close> is a child of the originating \<open>if\<close> like any other, scored once at that
  \<open>if\<close>'s nesting.
\<close>

fun isBlockStmt :: "node \<Rightarrow> bool" where
  "isBlockStmt (BlockStmt xs) = True"
| "isBlockStmt n = False"

function cognitiveReferenceAt :: "bool \<Rightarrow> int \<Rightarrow> node \<Rightarrow> int" where
  "cognitiveReferenceAt isRoot nesting n =
     (if n = NilNode then 0
      else (if isBranchNode n \<or> isShortCircuit n then 1 + nesting else 0)
         + sum_list (map (cognitiveReferenceAt False
                            (if isBlockStmt n \<and> \<not> isRoot then nesting + 1 else nesting))
                         (children n)))"
  by pat_completeness auto
termination
  by (relation "measure (\<lambda>(r, k, n). size n)") (auto simp: size_children)

declare cognitiveReferenceAt.simps [simp del]

text \<open>
  The outermost function block: the body of a function declaration (the use case passes
  the declaration to \<open>CalculateComplexity\<close>), or the node itself.
\<close>

fun functionBlock :: "node \<Rightarrow> node" where
  "functionBlock (FuncDecl name p ty body) = body"
| "functionBlock n = n"

definition cognitiveReference :: "node \<Rightarrow> int" where
  "cognitiveReference node = cognitiveReferenceAt True 0 (functionBlock node)"

section \<open>Strings, positions and findings\<close>

text \<open>
  \<open>strings.Contains\<close> and \<open>strings.ToLower\<close> of the Go library. Names are taken as
  ASCII: \<open>ToLower\<close> maps \<open>A\<close>..\<open>Z\<close> to \<open>a\<close>..\<open>z\<close> and leaves every other byte.
\<close>

fun Contains :: "string \<Rightarrow> string \<Rightarrow> bool" where
  "Contains [] substr = (substr = [])"
| "Contains (c # cs) substr = (prefix substr (c # cs) \<or> Contains cs substr)"

definition toLowerChar :: "char \<Rightarrow> char" where
  "toLowerChar c =
     (let k = (of_char c :: nat) in if 65 \<le> k \<and> k \<le> 90 then char_of (k + 32) else c)"

definition ToLower :: "string \<Rightarrow> string" where
  "ToLower s = map toLowerChar s"

text \<open>The verb \<open>%d\<close> of \<open>fmt.Sprintf\<close>.\<close>

fun digitsOf :: "nat \<Rightarrow> string" where
  "digitsOf n =
     (if n < 10 then [char_of (48 + n)] else digitsOf (n div 10) @ [char_of (48 + n mod 10)])"

declare digitsOf.simps [simp del]

definition showInt :: "int \<Rightarrow> string" where
  "showInt i = (if i < 0 then CHR ''-'' # digitsOf (nat (- i)) else digitsOf (nat i))"

text \<open>The verb \<open>%v\<close> of \<open>fmt.Sprintf\<close> on a \<open>[]string\<close>: \<open>[a b c]\<close>.\<close>

fun joinSpace :: "string list \<Rightarrow> string" where
  "joinSpace [] = []"
| "joinSpace [x] = x"
| "joinSpace (x # y # ys) = x @ '' '' @ joinSpace (y # ys)"

definition showStrings :: "string list \<Rightarrow> string" where
  "showStrings xs = ''['' @ joinSpace xs @ '']''"

text \<open>
  \<open>token.Position\<close> and the Position Resolver: \<open>fset.Position\<close> is a function from the
  offsets stored in the tree to positions, supplied by the parser.
\<close>

record Position =
  Filename :: string
  Line :: int
  Column :: int

type_synonym FileSet = "pos \<Rightarrow> Position"

subsection \<open>SourceLocation (package valueobjects)\<close>

record SourceLocation =
  filePath :: string
  line :: int
  column :: int

text \<open>
  \<open>filepath.Clean\<close> belongs to the Go library, not to this program: it is the parameter
  \<open>Clean\<close> of the constructor and of every function that builds a location.
\<close>

definition NewSourceLocation ::
  "(string \<Rightarrow> string) \<Rightarrow> string \<Rightarrow> int \<Rightarrow> int \<Rightarrow> error + SourceLocation" where
  "NewSourceLocation Clean path ln col =
     (if path = [] then Inl (Error ''file path cannot be empty'')
      else if ln < 1 then Inl (Error ''line must be >= 1'')
      else if col < 0 then Inl (Error ''column must be >= 0'')
      else Inr \<lparr>filePath = Clean path, line = ln, column = col\<rparr>)"

text \<open>
  The detectors write \<open>location, _ := valueobjects.NewSourceLocation(...)\<close>: the error is
  dropped, and on an error \<open>location\<close> is the zero value of the struct.
\<close>

definition zeroSourceLocation :: SourceLocation where
  "zeroSourceLocation = \<lparr>filePath = [], line = 0, column = 0\<rparr>"

definition locationOf :: "(string \<Rightarrow> string) \<Rightarrow> Position \<Rightarrow> SourceLocation" where
  "locationOf Clean p =
     (case NewSourceLocation Clean (Filename p) (Line p) (Column p) of
        Inl e \<Rightarrow> zeroSourceLocation
      | Inr l \<Rightarrow> l)"

subsection \<open>AnalysisFinding (package entities)\<close>

datatype FindingType =
  FindingTypeComplexity | FindingTypeSmell | FindingTypeSecurity | FindingTypePerformance
  | FindingTypeBug

text \<open>
  The finding without its timestamp (\<open>time.Now()\<close>) and its metadata (empty when a
  detector returns the finding).
\<close>

record AnalysisFinding =
  findingId :: string
  findingType :: FindingType
  location :: SourceLocation
  message :: string
  severity :: SeverityLevel

definition NewAnalysisFinding ::
  "string \<Rightarrow> FindingType \<Rightarrow> SourceLocation \<Rightarrow> string \<Rightarrow> SeverityLevel
     \<Rightarrow> error + AnalysisFinding" where
  "NewAnalysisFinding ident ty loc msg sev =
     (if ident = [] then Inl (Error ''finding ID cannot be empty'')
      else if msg = [] then Inl (Error ''finding message cannot be empty'')
      else Inr \<lparr>findingId = ident, findingType = ty, location = loc, message = msg,
                severity = sev\<rparr>)"

text \<open>\<open>finding, _ := entities.NewAnalysisFinding(...)\<close>: the zero finding on an error.\<close>

definition zeroFinding :: AnalysisFinding where
  "zeroFinding = \<lparr>findingId = [], findingType = FindingTypeComplexity,
                   location = zeroSourceLocation, message = [], severity = SeverityInfo\<rparr>"

definition findingOf ::
  "string \<Rightarrow> FindingType \<Rightarrow> SourceLocation \<Rightarrow> string \<Rightarrow> SeverityLevel \<Rightarrow> AnalysisFinding" where
  "findingOf ident ty loc msg sev =
     (case NewAnalysisFinding ident ty loc msg sev of Inl e \<Rightarrow> zeroFinding | Inr f \<Rightarrow> f)"

section \<open>Task Leak Detector (ASTGoroutineLeakDetector)\<close>

record goroutineContext =
  hasChannelReceive :: bool
  hasChannelClose :: bool
  hasSelectStmt :: bool
  hasContextCancel :: bool
  hasTimeout :: bool
  hasPrematureReturn :: bool
  hasChannelSend :: bool
  hasDoubleSend :: bool
  hasDeferClose :: bool
  functionName :: string
  position :: Position

definition isContextDoneCall_gld :: "node \<Rightarrow> bool" where
  "isContextDoneCall_gld expr =
     (case identSelector expr of
        Some (name, sel) \<Rightarrow>
          sel = ''Done'' \<and>
          (Contains (ToLower name) ''ctx'' \<or> Contains (ToLower name) ''context'')
      | None \<Rightarrow> False)"

fun isDoneChannel :: "node \<Rightarrow> bool" where
  "isDoneChannel (Ident name) =
     (Contains (ToLower name) ''done'' \<or> Contains (ToLower name) ''quit''
      \<or> Contains (ToLower name) ''stop'' \<or> Contains (ToLower name) ''cancel''
      \<or> Contains (ToLower name) ''exit'')"
| "isDoneChannel expr = False"

text \<open>\<open>isTimeoutCall\<close> of the leak detector; \<open>False\<close> on a node that is no call.\<close>

definition isTimeoutCall_gld :: "node \<Rightarrow> bool" where
  "isTimeoutCall_gld call =
     (case asCallExpr call of
        Some (fn, args) \<Rightarrow>
          (case identSelector fn of
             Some (name, sel) \<Rightarrow>
               (if sel = ''After'' then name = ''time''
                else if sel = ''WithTimeout'' \<or> sel = ''WithDeadline''
                  then Contains (ToLower name) ''context''
                else False)
           | None \<Rightarrow> False)
      | None \<Rightarrow> False)"

definition analyzeCallExpression :: "node \<Rightarrow> goroutineContext \<Rightarrow> goroutineContext" where
  "analyzeCallExpression call ctx =
     (case asCallExpr call of
        Some (fn, args) \<Rightarrow>
          (let ctx1 = (case asIdent fn of
                         Some name \<Rightarrow>
                           (if name = ''close'' then ctx\<lparr>hasChannelClose := True\<rparr> else ctx)
                       | None \<Rightarrow> ctx)
           in case identSelector fn of
                Some (name, sel) \<Rightarrow>
                  (if (name = ''ctx'' \<or> name = ''context'') \<and> sel = ''Done''
                   then ctx1\<lparr>hasContextCancel := True\<rparr> else ctx1)
              | None \<Rightarrow> ctx1)
      | None \<Rightarrow> ctx)"

text \<open>
  One clause of \<open>analyzeSelectStatement\<close>'s loop; the state is
  (\<open>hasDefault\<close>, \<open>hasContextDone\<close>, \<open>hasTimeout\<close>). Only a communication that is an
  expression statement is examined.
\<close>

definition selectClause_gld ::
  "node \<Rightarrow> bool \<times> bool \<times> bool \<Rightarrow> bool \<times> bool \<times> bool" where
  "selectClause_gld clause st =
     (case st of (d, c, t) \<Rightarrow>
        (case asCommClause clause of
           Some (comm, body) \<Rightarrow>
             (if comm = NilNode then (True, c, t)
              else
                (case asExprStmt comm of
                   Some x \<Rightarrow>
                     (case (case asUnaryExpr x of
                              Some (op, y) \<Rightarrow>
                                (if op = ARROW
                                 then (c \<or> isContextDoneCall_gld y \<or> isDoneChannel y,
                                       t \<or> isTimeoutCall_gld y)
                                 else (c, t))
                            | None \<Rightarrow> (c, t)) of
                        (c1, t1) \<Rightarrow> (d, c1, t1 \<or> isTimeoutCall_gld x))
                 | None \<Rightarrow> (d, c, t)))
         | None \<Rightarrow> (d, c, t)))"

text \<open>\<open>selectStmt.Body.List\<close>; the parser always gives a select a block as its body.\<close>

fun blockList :: "node \<Rightarrow> node list" where
  "blockList (BlockStmt xs) = xs"
| "blockList n = []"

fun selectClauses :: "node \<Rightarrow> node list" where
  "selectClauses (SelectStmt b) = blockList b"
| "selectClauses n = []"

definition analyzeSelectStatement :: "node \<Rightarrow> goroutineContext \<Rightarrow> goroutineContext" where
  "analyzeSelectStatement selectStmt ctx =
     (case fold selectClause_gld (selectClauses selectStmt) (False, False, False) of
        (hasDefault, hasContextDone, hasTimeout') \<Rightarrow>
          (let ctx1 = (if hasDefault \<or> hasContextDone \<or> hasTimeout'
                       then ctx\<lparr>hasContextCancel := True\<rparr> else ctx)
           in if hasTimeout' then ctx1\<lparr>hasTimeout := True\<rparr> else ctx1))"

fun sameChannel :: "node \<Rightarrow> node \<Rightarrow> bool" where
  "sameChannel (Ident name1) (Ident name2) = (name1 = name2)"
| "sameChannel chan1 chan2 = False"

fun doubleSendVisit :: "node \<Rightarrow> node \<Rightarrow> int \<Rightarrow> int" where
  "doubleSendVisit chan (SendStmt ch v) sendCount =
     (if sameChannel chan ch then sendCount + 1 else sendCount)"
| "doubleSendVisit chan n sendCount = sendCount"

fun checkForDoubleSend :: "node \<Rightarrow> node \<Rightarrow> goroutineContext \<Rightarrow> goroutineContext" where
  "checkForDoubleSend block (SendStmt chan v) ctx =
     (if inspect (doubleSendVisit chan) block 0 > 1 then ctx\<lparr>hasDoubleSend := True\<rparr> else ctx)"
| "checkForDoubleSend block n ctx = ctx"

fun checkDeferClose :: "node \<Rightarrow> goroutineContext \<Rightarrow> goroutineContext" where
  "checkDeferClose (DeferStmt call) ctx =
     (case asCallExpr call of
        Some (fn, args) \<Rightarrow>
          (case asIdent fn of
             Some name \<Rightarrow> (if name = ''close'' then ctx\<lparr>hasDeferClose := True\<rparr> else ctx)
           | None \<Rightarrow> ctx)
      | None \<Rightarrow> ctx)"
| "checkDeferClose deferStmt ctx = ctx"

definition checkPrematureReturn ::
  "node \<Rightarrow> node \<Rightarrow> goroutineContext \<Rightarrow> goroutineContext" where
  "checkPrematureReturn block returnStmt ctx =
     (if hasChannelReceive ctx \<or> hasChannelSend ctx
      then ctx\<lparr>hasPrematureReturn := True\<rparr> else ctx)"

fun isReceive :: "node \<Rightarrow> bool" where
  "isReceive (UnaryExpr op x) = (op = ARROW)"
| "isReceive n = False"

text \<open>The callback of \<open>analyzeFunctionBody\<close>; the state is the context.\<close>

fun leakVisit :: "node \<Rightarrow> node \<Rightarrow> goroutineContext \<Rightarrow> goroutineContext" where
  "leakVisit block (SendStmt ch v) ctx =
     checkForDoubleSend block (SendStmt ch v) (ctx\<lparr>hasChannelSend := True\<rparr>)"
| "leakVisit block (UnaryExpr op x) ctx =
     (if op = ARROW then ctx\<lparr>hasChannelReceive := True\<rparr> else ctx)"
| "leakVisit block (AssignStmt lhs rhs) ctx =
     fold (\<lambda>r c. if isReceive r then c\<lparr>hasChannelReceive := True\<rparr> else c) rhs ctx"
| "leakVisit block (CallExpr f args) ctx = analyzeCallExpression (CallExpr f args) ctx"
| "leakVisit block (SelectStmt b) ctx =
     analyzeSelectStatement (SelectStmt b) (ctx\<lparr>hasSelectStmt := True\<rparr>)"
| "leakVisit block (DeferStmt call) ctx = checkDeferClose (DeferStmt call) ctx"
| "leakVisit block (ReturnStmt rs) ctx = checkPrematureReturn block (ReturnStmt rs) ctx"
| "leakVisit block n ctx = ctx"

definition analyzeFunctionBody :: "node \<Rightarrow> goroutineContext \<Rightarrow> goroutineContext" where
  "analyzeFunctionBody block ctx = inspect (leakVisit block) block ctx"

text \<open>
  \<open>analyzeGoroutine\<close> up to its last step: the context of a spawn statement.
  \<open>goStmt.Call\<close> is a call expression by its type; \<open>goStmt.Call.Fun\<close> is tested three
  times, in the order of the source. (The last equation of \<open>spawnContext\<close> is never
  reached: \<open>collectGoroutines\<close> returns spawn statements only.)
\<close>

definition namedCall :: "node \<Rightarrow> string option" where
  "namedCall fn =
     (case asCallExpr fn of Some (f, args) \<Rightarrow> asIdent f | None \<Rightarrow> None)"

definition callArgs :: "node \<Rightarrow> node list" where
  "callArgs fn = (case asCallExpr fn of Some (f, args) \<Rightarrow> args | None \<Rightarrow> [])"

definition emptyContext :: "Position \<Rightarrow> goroutineContext" where
  "emptyContext p =
     \<lparr>hasChannelReceive = False, hasChannelClose = False, hasSelectStmt = False,
      hasContextCancel = False, hasTimeout = False, hasPrematureReturn = False,
      hasChannelSend = False, hasDoubleSend = False, hasDeferClose = False,
      functionName = ''anonymous_goroutine'', position = p\<rparr>"

text \<open>\<open>goStmt.Call.Fun\<close>\<close>

definition callFun :: "node \<Rightarrow> node" where
  "callFun call = (case asCallExpr call of Some (fn, args) \<Rightarrow> fn | None \<Rightarrow> NilNode)"

fun spawnContext :: "FileSet \<Rightarrow> node \<Rightarrow> goroutineContext" where
  "spawnContext fset (GoStmt p call) =
     (let fn = callFun call;
          ctx0 = emptyContext (fset p);
          ctx1 = (case namedCall fn of Some name \<Rightarrow> ctx0\<lparr>functionName := name\<rparr>
                  | None \<Rightarrow> ctx0);
          ctx2 = (case asFuncLit fn of Some body \<Rightarrow> analyzeFunctionBody body ctx1
                  | None \<Rightarrow> ctx1)
      in fold (\<lambda>arg c. case asFuncLit arg of Some body \<Rightarrow> analyzeFunctionBody body c
                        | None \<Rightarrow> c)
              (callArgs fn) ctx2)"
| "spawnContext fset goStmt = emptyContext (fset 0)"

definition checkLeakPatterns ::
  "(string \<Rightarrow> string) \<Rightarrow> goroutineContext \<Rightarrow> AnalysisFinding list" where
  "checkLeakPatterns Clean ctx =
     (let loc = locationOf Clean (position ctx);
          hasOperations = (hasChannelReceive ctx \<or> hasChannelSend ctx \<or> hasSelectStmt ctx)
      in if \<not> hasOperations then []
         else
           (if hasChannelReceive ctx \<and> \<not> hasChannelClose ctx \<and> \<not> hasContextCancel ctx
            then [findingOf
                    (''channel_receive_leak_'' @ functionName ctx @ ''_''
                       @ showInt (Line (position ctx)))
                    FindingTypeSmell loc
                    (''Potential goroutine leak in '' @ functionName ctx
                       @ '': channel_receive_leak detected - channel receive without close operation (confidence: 0.42)'')
                    SeverityWarning]
            else [])
           @ (if hasSelectStmt ctx \<and> \<not> hasContextCancel ctx \<and> \<not> hasTimeout ctx
              then [findingOf
                      (''select_statement_leak_'' @ functionName ctx @ ''_''
                         @ showInt (Line (position ctx)))
                      FindingTypeSmell loc
                      (''Potential goroutine leak in '' @ functionName ctx
                         @ '': select_statement_leak detected - select statement without escape hatch (context cancel or timeout) (confidence: 0.86)'')
                      SeverityError]
              else [])
           @ (if hasChannelSend ctx \<and> hasPrematureReturn ctx \<and> \<not> hasDeferClose ctx
              then [findingOf
                      (''channel_send_leak_'' @ functionName ctx @ ''_''
                         @ showInt (Line (position ctx)))
                      FindingTypeSmell loc
                      (''Potential goroutine leak in '' @ functionName ctx
                         @ '': channel_send_leak detected - channel send with premature return (confidence: 0.57)'')
                      SeverityWarning]
              else []))"

definition analyzeGoroutine ::
  "(string \<Rightarrow> string) \<Rightarrow> FileSet \<Rightarrow> node \<Rightarrow> AnalysisFinding list" where
  "analyzeGoroutine Clean fset goStmt = checkLeakPatterns Clean (spawnContext fset goStmt)"

fun collectVisit :: "node \<Rightarrow> node list \<Rightarrow> node list" where
  "collectVisit (GoStmt p call) goroutines = goroutines @ [GoStmt p call]"
| "collectVisit n goroutines = goroutines"

definition collectGoroutines :: "node \<Rightarrow> node list" where
  "collectGoroutines node = inspect collectVisit node []"

definition DetectLeaks :: "(string \<Rightarrow> string) \<Rightarrow> FileSet \<Rightarrow> node \<Rightarrow> AnalysisFinding list" where
  "DetectLeaks Clean fset node =
     concat (map (analyzeGoroutine Clean fset) (collectGoroutines node))"

section \<open>Concurrency Bug Detector (ASTConcurrencyBugDetector)\<close>

datatype BlockingCause =
  BlockingCauseChannelMisuse | BlockingCauseSharedMemorySync | BlockingCauseDeadlock

fun BlockingCause_String :: "BlockingCause \<Rightarrow> string" where
  "BlockingCause_String BlockingCauseChannelMisuse = ''channel_misuse''"
| "BlockingCause_String BlockingCauseSharedMemorySync = ''shared_memory_sync''"
| "BlockingCause_String BlockingCauseDeadlock = ''deadlock''"

record blockingPattern =
  cause :: BlockingCause
  description :: string

text \<open>
  The Operation Tally, \<open>map[string][]string\<close>: an association list from a name to the
  tags recorded for it, in the order in which the keys were first written. Go ranges over
  a map in an unspecified order; the list fixes one, and the properties below speak of the
  number and the kind of the patterns only.
\<close>

type_synonym tally = "(string \<times> string list) list"

text \<open>\<open>m[name] = append(m[name], tag)\<close>\<close>

fun appendOp :: "string \<Rightarrow> string \<Rightarrow> tally \<Rightarrow> tally" where
  "appendOp name tag [] = [(name, [tag])]"
| "appendOp name tag ((k, ops) # m) =
     (if k = name then (k, ops @ [tag]) # m else (k, ops) # appendOp name tag m)"

text \<open>\<open>_, exists := m[name]\<close>\<close>

definition hasKey :: "tally \<Rightarrow> string \<Rightarrow> bool" where
  "hasKey m name = (map_of m name \<noteq> None)"

definition mutexTag :: "string \<Rightarrow> string option" where
  "mutexTag sel =
     (if sel = ''Lock'' \<or> sel = ''RLock'' then Some ''lock''
      else if sel = ''Unlock'' \<or> sel = ''RUnlock'' then Some ''unlock''
      else None)"

text \<open>The callback of the nested \<open>ast.Inspect\<close> of \<open>analyzeCallForBlocking\<close>.\<close>

definition nestedMutexVisit :: "node \<Rightarrow> tally \<Rightarrow> tally" where
  "nestedMutexVisit n mutexOps =
     (case identSelector n of
        Some (name, sel) \<Rightarrow>
          (if hasKey mutexOps name
           then (case mutexTag sel of Some tag \<Rightarrow> appendOp name tag mutexOps
                 | None \<Rightarrow> mutexOps)
           else mutexOps)
      | None \<Rightarrow> mutexOps)"

text \<open>
  \<open>analyzeCallForBlocking\<close>: the callee of the call is tallied first, then the nested
  walk over the whole call (the callee included) tallies every selector on a name that
  already has an entry.
\<close>

definition directMutexOp :: "node \<Rightarrow> tally \<Rightarrow> tally" where
  "directMutexOp fn mutexOps =
     (case identSelector fn of
        Some (name, sel) \<Rightarrow>
          (case mutexTag sel of Some tag \<Rightarrow> appendOp name tag mutexOps | None \<Rightarrow> mutexOps)
      | None \<Rightarrow> mutexOps)"

definition analyzeCallForBlocking :: "node \<Rightarrow> tally \<Rightarrow> tally" where
  "analyzeCallForBlocking call mutexOps =
     inspect nestedMutexVisit call (directMutexOp (callFun call) mutexOps)"

text \<open>\<open>isTimeoutCall\<close> of the bug detector; \<open>False\<close> on a node that is no call.\<close>

definition isTimeoutCall_cbd :: "node \<Rightarrow> bool" where
  "isTimeoutCall_cbd call =
     (case asCallExpr call of
        Some (fn, args) \<Rightarrow>
          (case asSelectorExpr fn of
             Some (x, sel) \<Rightarrow> sel = ''After'' \<or> Contains sel ''Timeout''
           | None \<Rightarrow> False)
      | None \<Rightarrow> False)"

definition doneOnContext :: "node \<Rightarrow> bool" where
  "doneOnContext selector =
     (case identSelector selector of
        Some (name, sel) \<Rightarrow>
          sel = ''Done'' \<and>
          (Contains (ToLower name) ''ctx'' \<or> Contains (ToLower name) ''context'')
      | None \<Rightarrow> False)"

definition isContextDoneCall_cbd :: "node \<Rightarrow> bool" where
  "isContextDoneCall_cbd expr =
     (if asSelectorExpr expr \<noteq> None then doneOnContext expr
      else case asCallExpr expr of
             Some (fn, args) \<Rightarrow> doneOnContext fn
           | None \<Rightarrow> False)"

text \<open>
  One clause of \<open>isPotentiallyBlockingSelect\<close>'s loop; the state is
  (\<open>caseCount\<close>, \<open>hasDefault\<close>, \<open>hasTimeout\<close>, \<open>hasContextDone\<close>).
\<close>

definition selectClause_cbd ::
  "node \<Rightarrow> int \<times> bool \<times> bool \<times> bool \<Rightarrow> int \<times> bool \<times> bool \<times> bool" where
  "selectClause_cbd clause st =
     (case st of (k, d, t, c) \<Rightarrow>
        (case asCommClause clause of
           Some (comm, body) \<Rightarrow>
             (if comm = NilNode then (k, True, t, c)
              else
                (case asExprStmt comm of
                   Some x \<Rightarrow>
                     (case asUnaryExpr x of
                        Some (op, y) \<Rightarrow>
                          (if op = ARROW
                           then (k + 1, d, t \<or> isTimeoutCall_cbd y, c \<or> isContextDoneCall_cbd y)
                           else (k + 1, d, t, c))
                      | None \<Rightarrow> (k + 1, d, t, c))
                 | None \<Rightarrow> (k + 1, d, t, c)))
         | None \<Rightarrow> (k, d, t, c)))"

definition isPotentiallyBlockingSelect :: "node \<Rightarrow> bool" where
  "isPotentiallyBlockingSelect selectStmt =
     (case fold selectClause_cbd (selectClauses selectStmt) (0, False, False, False) of
        (caseCount, hasDefault, hasTimeout', hasContextDone) \<Rightarrow>
          caseCount \<ge> 2 \<and> \<not> hasDefault \<and> \<not> hasTimeout' \<and> \<not> hasContextDone)"

text \<open>The counting loops of \<open>hasPotentialChannelBlock\<close> and \<open>hasPotentialDeadlock\<close>.\<close>

definition countOps :: "string \<Rightarrow> string \<Rightarrow> string list \<Rightarrow> int \<times> int" where
  "countOps tag1 tag2 ops =
     fold (\<lambda>op (n1, n2). if op = tag1 then (n1 + 1, n2)
                         else if op = tag2 then (n1, n2 + 1) else (n1, n2))
          ops (0, 0)"

definition hasPotentialChannelBlock :: "string list \<Rightarrow> bool" where
  "hasPotentialChannelBlock ops =
     (case countOps ''send'' ''receive'' ops of
        (sendCount, receiveCount) \<Rightarrow>
          (if sendCount + receiveCount < 2 then False
           else (sendCount > receiveCount * 2 \<and> sendCount > 1)
              \<or> (receiveCount > sendCount * 2 \<and> receiveCount > 1)))"

definition hasPotentialDeadlock :: "string list \<Rightarrow> bool" where
  "hasPotentialDeadlock ops =
     (case countOps ''lock'' ''unlock'' ops of
        (lockCount, unlockCount) \<Rightarrow> lockCount > unlockCount + 1)"


record blockingState =
  patterns :: "blockingPattern list"
  channelOps :: tally
  mutexOps :: tally

definition emptyBlockingState :: blockingState where
  "emptyBlockingState = \<lparr>patterns = [], channelOps = [], mutexOps = []\<rparr>"

definition selectPattern :: blockingPattern where
  "selectPattern =
     \<lparr>cause = BlockingCauseChannelMisuse,
      description = ''select statement without default or timeout case may block indefinitely''\<rparr>"

text \<open>
  The callback of \<open>analyzeBlockingPatterns\<close> at every node but a spawn statement; the
  state is (\<open>patterns\<close>, \<open>channelOps\<close>, \<open>mutexOps\<close>).
\<close>

fun blockingVisit :: "node \<Rightarrow> blockingState \<Rightarrow> blockingState" where
  "blockingVisit (SendStmt ch v) st =
     (case asIdent ch of
        Some name \<Rightarrow> st\<lparr>channelOps := appendOp name ''send'' (channelOps st)\<rparr>
      | None \<Rightarrow> st)"
| "blockingVisit (UnaryExpr op x) st =
     (if op = ARROW
      then (case asIdent x of
              Some name \<Rightarrow> st\<lparr>channelOps := appendOp name ''receive'' (channelOps st)\<rparr>
            | None \<Rightarrow> st)
      else st)"
| "blockingVisit (CallExpr fn args) st =
     st\<lparr>mutexOps := analyzeCallForBlocking (CallExpr fn args) (mutexOps st)\<rparr>"
| "blockingVisit (SelectStmt b) st =
     (if isPotentiallyBlockingSelect (SelectStmt b)
      then st\<lparr>patterns := patterns st @ [selectPattern]\<rparr> else st)"
| "blockingVisit n st = st"

text \<open>The two loops over the tallies that end \<open>analyzeBlockingPatterns\<close>.\<close>

definition channelPattern :: "string \<times> string list \<Rightarrow> blockingPattern" where
  "channelPattern e =
     \<lparr>cause = BlockingCauseChannelMisuse,
      description = ''channel '' @ [CHR 0x27] @ fst e @ [CHR 0x27]
                    @ '' operations may cause blocking: '' @ showStrings (snd e)\<rparr>"

definition mutexPattern :: "string \<times> string list \<Rightarrow> blockingPattern" where
  "mutexPattern e =
     \<lparr>cause = BlockingCauseDeadlock,
      description = ''mutex '' @ [CHR 0x27] @ fst e @ [CHR 0x27]
                    @ '' usage pattern may cause deadlock: '' @ showStrings (snd e)\<rparr>"

definition channelPatterns :: "tally \<Rightarrow> blockingPattern list" where
  "channelPatterns m = map channelPattern (filter (\<lambda>e. hasPotentialChannelBlock (snd e)) m)"

definition mutexPatterns :: "tally \<Rightarrow> blockingPattern list" where
  "mutexPatterns m = map mutexPattern (filter (\<lambda>e. hasPotentialDeadlock (snd e)) m)"

definition finishBlocking :: "blockingState \<Rightarrow> blockingPattern list" where
  "finishBlocking st =
     patterns st @ channelPatterns (channelOps st) @ mutexPatterns (mutexOps st)"

text \<open>
  The walk of \<open>analyzeBlockingPatterns\<close>. At a spawn statement whose callee is a function
  literal the function calls itself on the literal's body, with fresh tallies, and appends
  the patterns it returns; the callback returns \<open>true\<close>, so the walk then descends into
  the spawn statement, the literal's body included.
\<close>

definition goFuncLitBody :: "node \<Rightarrow> node option" where
  "goFuncLitBody n =
     (case asGoStmt n of Some (p, call) \<Rightarrow> asFuncLit (callFun call) | None \<Rightarrow> None)"

lemma size_goFuncLitBody: "goFuncLitBody n = Some body \<Longrightarrow> size body < size n"
  by (auto simp: goFuncLitBody_def callFun_def split: option.splits
           elim!: asGoStmt.elims asFuncLit.elims asCallExpr.elims)

function walkBlocking :: "node \<Rightarrow> blockingState \<Rightarrow> blockingState" where
  "walkBlocking n st =
     (if n = NilNode then st
      else fold walkBlocking (children n)
        (case goFuncLitBody n of
           Some body \<Rightarrow>
             st\<lparr>patterns := patterns st @ finishBlocking (walkBlocking body emptyBlockingState)\<rparr>
         | None \<Rightarrow> blockingVisit n st))"
  by pat_completeness auto
termination
  by (relation "measure (\<lambda>(n, st). size n)") (auto simp: size_children size_goFuncLitBody)

declare walkBlocking.simps [simp del]

definition analyzeBlockingPatterns :: "node \<Rightarrow> blockingPattern list" where
  "analyzeBlockingPatterns block = finishBlocking (walkBlocking block emptyBlockingState)"

text \<open>
  \<open>detectBlockingBugs\<close>: one finding per pattern, each with the location of the function
  declaration.
\<close>

fun causeMessage :: "BlockingCause \<Rightarrow> string" where
  "causeMessage BlockingCauseChannelMisuse = ''channel misuse detected - ''"
| "causeMessage BlockingCauseSharedMemorySync = ''shared memory synchronization issue - ''"
| "causeMessage BlockingCauseDeadlock = ''deadlock pattern detected - ''"

fun causeSeverity :: "BlockingCause \<Rightarrow> SeverityLevel" where
  "causeSeverity BlockingCauseChannelMisuse = SeverityWarning"
| "causeSeverity BlockingCauseSharedMemorySync = SeverityError"
| "causeSeverity BlockingCauseDeadlock = SeverityCritical"

definition blockingFinding ::
  "(string \<Rightarrow> string) \<Rightarrow> FileSet \<Rightarrow> string \<Rightarrow> pos \<Rightarrow> blockingPattern \<Rightarrow> AnalysisFinding" where
  "blockingFinding Clean fset name p pattern =
     findingOf
       (BlockingCause_String (cause pattern) @ ''_'' @ name @ ''_'' @ showInt (Line (fset p)))
       FindingTypeBug
       (locationOf Clean (fset p))
       (''Potential blocking bug in '' @ name @ '': '' @ causeMessage (cause pattern)
          @ description pattern)
       (causeSeverity (cause pattern))"

fun detectBlockingBugs :: "(string \<Rightarrow> string) \<Rightarrow> FileSet \<Rightarrow> node \<Rightarrow> AnalysisFinding list" where
  "detectBlockingBugs Clean fset (FuncDecl name p ty body) =
     map (blockingFinding Clean fset name p) (analyzeBlockingPatterns body)"
| "detectBlockingBugs Clean fset n = []"

text \<open>
  The race-condition rule: \<open>analyzeRaceConditionPatterns\<close> returns no pattern, so
  \<open>detectRaceConditions\<close> builds no finding, with or without a spawn statement in the
  body. (The callback of \<open>containsGoroutines\<close> stops descending below a spawn
  statement it has found, which does not change its answer.)
\<close>

fun isGoStmt :: "node \<Rightarrow> bool" where
  "isGoStmt (GoStmt p call) = True"
| "isGoStmt n = False"

definition containsGoroutines :: "node \<Rightarrow> bool" where
  "containsGoroutines block = inspect (\<lambda>n hasGo. hasGo \<or> isGoStmt n) block False"

definition analyzeRaceConditionPatterns :: "node \<Rightarrow> string list" where
  "analyzeRaceConditionPatterns block = []"

fun detectRaceConditions :: "(string \<Rightarrow> string) \<Rightarrow> FileSet \<Rightarrow> node \<Rightarrow> AnalysisFinding list" where
  "detectRaceConditions Clean fset (FuncDecl name p ty body) =
     (if \<not> containsGoroutines body then []
      else map (\<lambda>d. findingOf (''race_condition_'' @ name @ ''_'' @ showInt (Line (fset p)))
                       FindingTypeBug (locationOf Clean (fset p))
                       (''Potential race condition in '' @ name @ '': '' @ d)
                       SeverityCritical)
               (analyzeRaceConditionPatterns body))"
| "detectRaceConditions Clean fset n = []"

fun analyzeFunctionConcurrency ::
  "(string \<Rightarrow> string) \<Rightarrow> FileSet \<Rightarrow> node \<Rightarrow> AnalysisFinding list" where
  "analyzeFunctionConcurrency Clean fset (FuncDecl name p ty body) =
     (if body = NilNode then []
      else detectBlockingBugs Clean fset (FuncDecl name p ty body)
         @ detectRaceConditions Clean fset (FuncDecl name p ty body))"
| "analyzeFunctionConcurrency Clean fset n = []"

definition DetectBugs :: "(string \<Rightarrow> string) \<Rightarrow> FileSet \<Rightarrow> node \<Rightarrow> AnalysisFinding list" where
  "DetectBugs Clean fset node =
     inspect (\<lambda>n findings. findings @ analyzeFunctionConcurrency Clean fset n) node []"

section \<open>Properties of the value objects\<close>

text \<open>
  C8. \<open>IsHighComplexity\<close> holds exactly when the cyclomatic score exceeds 15 or the
  cognitive score exceeds 20. The predicate takes the score alone, so no configuration can
  influence it. At the boundaries: (15, 20) is not high, (16, 20) and (15, 21) are.
\<close>

theorem IsHighComplexity_thresholds:
  "IsHighComplexity c = (cyclomatic c > 15 \<or> cognitive c > 20)
   \<and> NewComplexityScore 15 20 = Inr \<lparr>cyclomatic = 15, cognitive = 20\<rparr>
   \<and> IsHighComplexity \<lparr>cyclomatic = 15, cognitive = 20\<rparr> = False
   \<and> IsHighComplexity \<lparr>cyclomatic = 16, cognitive = 20\<rparr> = True
   \<and> IsHighComplexity \<lparr>cyclomatic = 15, cognitive = 21\<rparr> = True"
  by (simp add: IsHighComplexity_def NewComplexityScore_def)

lemma NewAnalysisConfiguration_invariant:
  "NewAnalysisConfiguration a b l e s = Inr c \<Longrightarrow> configInvariant c"
  by (auto simp: NewAnalysisConfiguration_def configInvariant_def split: if_splits)

lemma applyWith_invariant:
  "configInvariant c \<Longrightarrow> withinBounds op \<Longrightarrow> configInvariant (applyWith c op)"
  by (cases op)
     (simp_all add: configInvariant_def WithMaxCyclomaticComplexity_def
        WithMaxCognitiveComplexity_def WithMaxFunctionLength_def WithSmellDetection_def)

lemma applyAll_invariant:
  "configInvariant c \<Longrightarrow> list_all withinBounds ops \<Longrightarrow> configInvariant (applyAll c ops)"
  unfolding applyAll_def
  by (induction ops arbitrary: c) (simp_all add: applyWith_invariant)

text \<open>
  C9. The constructor validates its arguments, the "with-X" operations store theirs
  unchecked (the invariants are kept only by a sequence of operations whose arguments are
  within the bounds, as the two lemmas above say). From the valid configuration built by
  \<open>NewAnalysisConfiguration 15 20 80 True SeverityWarning\<close>, the single call
  \<open>WithMaxCyclomaticComplexity 0\<close> reaches a configuration whose \<open>maxCyclomatic\<close> is 0,
  outside the invariant \<open>maxCyclomatic \<ge> 1\<close>; \<open>WithMaxCognitiveComplexity (-1)\<close> and
  \<open>WithMaxFunctionLength 0\<close> break the other two bounds.
\<close>

theorem WithMaxCyclomaticComplexity_unchecked:
  "NewAnalysisConfiguration 15 20 80 True SeverityWarning = Inr DefaultAnalysisConfiguration
   \<and> configInvariant DefaultAnalysisConfiguration
   \<and> maxCyclomaticComplexity (applyAll DefaultAnalysisConfiguration [OpMaxCyclomatic 0]) = 0
   \<and> \<not> configInvariant (applyAll DefaultAnalysisConfiguration [OpMaxCyclomatic 0])
   \<and> \<not> configInvariant (applyAll DefaultAnalysisConfiguration [OpMaxCognitive (- 1)])
   \<and> \<not> configInvariant (applyAll DefaultAnalysisConfiguration [OpMaxFunctionLength 0])"
  by (simp add: NewAnalysisConfiguration_def DefaultAnalysisConfiguration_def configInvariant_def
      applyAll_def WithMaxCyclomaticComplexity_def WithMaxCognitiveComplexity_def
      WithMaxFunctionLength_def)

section \<open>Properties of the traversal\<close>

lemma inspect_preorder: "inspect f n s = fold f (preorder n) s"
proof (induction f n s rule: inspect.induct)
  case (1 f n s)
  show ?case
  proof (cases "n = NilNode")
    case True
    then show ?thesis by (simp add: inspect.simps preorder.simps)
  next
    case False
    have "fold (inspect f) xs t = fold f (concat (map preorder xs)) t"
      if "set xs \<subseteq> set (children n)" for xs t
      using that
    proof (induction xs arbitrary: t)
      case Nil
      then show ?case by simp
    next
      case (Cons x xs)
      then show ?case using 1[OF False, of x] by simp
    qed
    then show ?thesis using False
      by (subst inspect.simps, subst preorder.simps) simp
  qed
qed


section \<open>Properties of the Complexity Calculator\<close>




text \<open>
  The function declaration \<open>func f() { if a {} }\<close>, as the use case passes it to
  \<open>CalculateComplexity\<close>, and two function bodies: \<open>{ if a {}; if b {} }\<close>, two
  conditions in sequence, and \<open>{ if a {} else if b {} }\<close>, one chained condition.
\<close>

definition singleIfFunction :: node where
  "singleIfFunction =
     FuncDecl ''f'' 1 (Other [Other []])
       (BlockStmt [IfStmt NilNode (Ident ''a'') (BlockStmt []) NilNode])"

definition twoIfs :: node where
  "twoIfs = BlockStmt [IfStmt NilNode (Ident ''a'') (BlockStmt []) NilNode,
                       IfStmt NilNode (Ident ''b'') (BlockStmt []) NilNode]"

definition elseIfChain :: node where
  "elseIfChain = BlockStmt [IfStmt NilNode (Ident ''a'') (BlockStmt [])
                              (IfStmt NilNode (Ident ''b'') (BlockStmt []) NilNode)]"

text \<open>
  C3. The computed cognitive complexity is not the reference definition. The root that
  \<open>calculateCognitiveComplexity\<close> exempts from the nesting count is the node it is
  given; given a function declaration, the function's own block raises \<open>nesting\<close> to 1,
  so \<open>func f() { if a {} }\<close> scores 2 where the reference gives 1. The walk raises
  \<open>nesting\<close> at every nested block and never lowers it, so the second of two
  sequential conditions is scored one level deeper: the body \<open>{ if a {}; if b {} }\<close>
  scores 3, the reference gives 2. The chained branch of an \<open>else if\<close> is scored by the
  recursive call and a second time when the walk reaches it as the \<open>Else\<close> child:
  \<open>{ if a {} else if b {} }\<close> scores 4, the reference gives 2.
\<close>

theorem calculateCognitiveComplexity_diverges:
  "CalculateComplexity singleIfFunction = Inr \<lparr>cyclomatic = 2, cognitive = 2\<rparr>
   \<and> cognitiveReference singleIfFunction = 1
   \<and> calculateCognitiveComplexity twoIfs 0 = 3 \<and> cognitiveReference twoIfs = 2
   \<and> calculateCognitiveComplexity elseIfChain 0 = 4 \<and> cognitiveReference elseIfChain = 2"
  by (simp add: CalculateComplexity_def NewComplexityScore_def calculateCyclomaticComplexity_def
      inspect.simps calculateCognitiveComplexity_def cognitiveReference_def singleIfFunction_def
      twoIfs_def elseIfChain_def elseIf_def cognitiveWalk.simps cognitiveReferenceAt.simps)

section \<open>Evaluation rules and facts about findings\<close>

lemma preorder_node: "n \<noteq> NilNode \<Longrightarrow> preorder n = n # concat (map preorder (children n))"
  by (subst preorder.simps) simp

lemma preorder_NilNode: "preorder NilNode = []"
  by (subst preorder.simps) simp

lemma walkBlocking_NilNode: "walkBlocking NilNode st = st"
  by (subst walkBlocking.simps) simp

lemma walkBlocking_node:
  "n \<noteq> NilNode \<Longrightarrow>
   walkBlocking n st =
     fold walkBlocking (children n)
       (case goFuncLitBody n of
          Some body \<Rightarrow>
            st\<lparr>patterns := patterns st @ finishBlocking (walkBlocking body emptyBlockingState)\<rparr>
        | None \<Rightarrow> blockingVisit n st)"
  by (subst walkBlocking.simps) simp

lemma detectRaceConditions_empty: "detectRaceConditions Clean fset n = []"
  by (cases n) (simp_all add: analyzeRaceConditionPatterns_def)

declare detectRaceConditions.simps [simp del]

lemmas leak_eval = inspect_preorder preorder_node preorder_NilNode analyzeFunctionBody_def
  callFun_def namedCall_def callArgs_def emptyContext_def identSelector_def
  analyzeGoroutine_def collectGoroutines_def DetectLeaks_def analyzeCallExpression_def
  analyzeSelectStatement_def selectClause_gld_def isContextDoneCall_gld_def
  isTimeoutCall_gld_def checkPrematureReturn_def

lemmas bug_eval = inspect_preorder preorder_node preorder_NilNode walkBlocking_node
  walkBlocking_NilNode goFuncLitBody_def callFun_def identSelector_def
  analyzeCallForBlocking_def directMutexOp_def nestedMutexVisit_def mutexTag_def hasKey_def
  emptyBlockingState_def finishBlocking_def channelPatterns_def mutexPatterns_def
  analyzeBlockingPatterns_def DetectBugs_def analyzeRaceConditionPatterns_def
  isPotentiallyBlockingSelect_def selectClause_cbd_def isTimeoutCall_cbd_def
  isContextDoneCall_cbd_def doneOnContext_def hasPotentialChannelBlock_def
  hasPotentialDeadlock_def countOps_def detectRaceConditions_empty

lemma prefix_Contains: "prefix sub s \<Longrightarrow> Contains s sub"
  by (cases s) auto

lemma Contains_append: "Contains (p @ sub @ q) sub"
  by (induction p) (auto intro: prefix_Contains)

lemma findingOf_valid:
  "ident \<noteq> [] \<Longrightarrow> msg \<noteq> [] \<Longrightarrow>
   findingOf ident ty loc msg sev =
     \<lparr>findingId = ident, findingType = ty, location = loc, message = msg, severity = sev\<rparr>"
  by (simp add: findingOf_def NewAnalysisFinding_def)

lemma BlockingCause_String_nonempty: "BlockingCause_String c \<noteq> []"
  by (cases c) auto

lemma blockingFinding_fields:
  "location (blockingFinding Clean fset name p pat) = locationOf Clean (fset p)"
  "findingType (blockingFinding Clean fset name p pat) = FindingTypeBug"
  "severity (blockingFinding Clean fset name p pat) = causeSeverity (cause pat)"
  "message (blockingFinding Clean fset name p pat) =
     ''Potential blocking bug in '' @ name @ '': '' @ causeMessage (cause pat) @ description pat"
  by (simp_all add: blockingFinding_def findingOf_valid BlockingCause_String_nonempty)

lemma receive_leak_message:
  "Contains (''Potential goroutine leak in '' @ fn
     @ '': channel_receive_leak detected - channel receive without close operation (confidence: 0.42)'')
     ''confidence: 0.42''"
proof -
  have "''Potential goroutine leak in '' @ fn
     @ '': channel_receive_leak detected - channel receive without close operation (confidence: 0.42)''
    = (''Potential goroutine leak in '' @ fn
     @ '': channel_receive_leak detected - channel receive without close operation ('')
     @ ''confidence: 0.42'' @ '')''"
    by simp
  then show ?thesis by (simp only: Contains_append)
qed

lemma receive_leak_kind:
  "Contains (''Potential goroutine leak in '' @ fn
     @ '': channel_receive_leak detected - channel receive without close operation (confidence: 0.42)'')
     ''channel_receive_leak''"
proof -
  have "''Potential goroutine leak in '' @ fn
     @ '': channel_receive_leak detected - channel receive without close operation (confidence: 0.42)''
    = (''Potential goroutine leak in '' @ fn @ '': '')
     @ ''channel_receive_leak''
     @ '' detected - channel receive without close operation (confidence: 0.42)''"
    by simp
  then show ?thesis by (simp only: Contains_append)
qed



lemma deadlock_message:
  "Contains (''Potential blocking bug in '' @ name @ '': ''
     @ causeMessage BlockingCauseDeadlock @ d) ''deadlock''"
proof -
  have "''Potential blocking bug in '' @ name @ '': ''
     @ causeMessage BlockingCauseDeadlock @ d
    = (''Potential blocking bug in '' @ name @ '': '') @ ''deadlock''
     @ ('' pattern detected - '' @ d)"
    by simp
  then show ?thesis by (simp only: Contains_append)
qed

text \<open>A file set and a path cleaner for concrete inputs: a clean path is left as it is.\<close>

definition fsLine :: FileSet where
  "fsLine p = \<lparr>Filename = ''main.go'', Line = int p, Column = 1\<rparr>"

definition sameFile :: "string \<Rightarrow> string" where
  "sameFile path = path"

section \<open>Properties of the Task Leak Detector\<close>

text \<open>
  Two spawn statements: \<open>go func() { val := <-ch }()\<close>, and
  \<open>go func() { if failed { return }; ch <- 1 }()\<close>, where the return statement comes
  before the send, next to \<open>go func() { ch <- 1; return }()\<close>, where it comes after.
\<close>

definition receiveOnlySpawn :: node where
  "receiveOnlySpawn =
     GoStmt 5 (CallExpr (FuncLit (Other [Other []])
        (BlockStmt [AssignStmt [Ident ''val''] [UnaryExpr ARROW (Ident ''ch'')]])) [])"

definition returnBeforeSend :: node where
  "returnBeforeSend =
     GoStmt 5 (CallExpr (FuncLit (Other [Other []])
        (BlockStmt [IfStmt NilNode (Ident ''failed'') (BlockStmt [ReturnStmt []]) NilNode,
                    SendStmt (Ident ''ch'') (Other [])])) [])"

definition sendBeforeReturn :: node where
  "sendBeforeReturn =
     GoStmt 5 (CallExpr (FuncLit (Other [Other []])
        (BlockStmt [SendStmt (Ident ''ch'') (Other []), ReturnStmt []])) [])"

text \<open>
  C4. \<open>checkPrematureReturn\<close> reads the flags the walk has set so far: a return
  statement that the walk reaches before the first channel operation leaves
  has-premature-return false. The spawn \<open>go func() { if failed { return }; ch <- 1 }()\<close>
  has a send and a return statement, and its context has has-premature-return false
  (so no send-leak finding is built); with the send first the flag is true.
\<close>

theorem checkPrematureReturn_order_sensitive:
  "hasChannelSend (spawnContext fsLine returnBeforeSend)
   \<and> \<not> hasPrematureReturn (spawnContext fsLine returnBeforeSend)
   \<and> analyzeGoroutine sameFile fsLine returnBeforeSend = []
   \<and> hasChannelSend (spawnContext fsLine sendBeforeReturn)
   \<and> hasPrematureReturn (spawnContext fsLine sendBeforeReturn)
   \<and> length (analyzeGoroutine sameFile fsLine sendBeforeReturn) = 1"
  by (simp add: returnBeforeSend_def sendBeforeReturn_def leak_eval checkLeakPatterns_def
      findingOf_valid)

lemma spawnContext_assign_receive:
  "spawnContext fset (GoStmt p (CallExpr (FuncLit ty
      (BlockStmt [AssignStmt [Ident v] [UnaryExpr ARROW (Ident c)]])) args))
   = (emptyContext (fset p))\<lparr>hasChannelReceive := True\<rparr>"
  by (simp add: leak_eval)

lemma collectGoroutines_preorder: "collectGoroutines tree = filter isGoStmt (preorder tree)"
proof -
  have "fold collectVisit xs acc = acc @ filter isGoStmt xs" for xs acc
  proof (induction xs arbitrary: acc)
    case Nil
    then show ?case by simp
  next
    case (Cons x xs)
    then show ?case by (cases x) simp_all
  qed
  then show ?thesis by (simp add: collectGoroutines_def inspect_preorder)
qed

lemma DetectLeaks_member:
  "GoStmt p call \<in> set (preorder tree) \<Longrightarrow> f \<in> set (analyzeGoroutine Clean fset (GoStmt p call))
   \<Longrightarrow> f \<in> set (DetectLeaks Clean fset tree)"
  by (auto simp: DetectLeaks_def collectGoroutines_preorder intro!: bexI[of _ "GoStmt p call"])

text \<open>The function \<open>func name() { go func() { v := <-c }() }\<close>.\<close>

definition receiveSpawnFunction :: "string \<Rightarrow> pos \<Rightarrow> pos \<Rightarrow> string \<Rightarrow> string \<Rightarrow> node" where
  "receiveSpawnFunction name p q v c =
     Other [FuncDecl name p (Other [Other []])
       (BlockStmt [GoStmt q (CallExpr (FuncLit (Other [Other []])
          (BlockStmt [AssignStmt [Ident v] [UnaryExpr ARROW (Ident c)]])) [])])]"

lemma collectGoroutines_receiveSpawnFunction:
  "collectGoroutines (receiveSpawnFunction name p q v c) =
     [GoStmt q (CallExpr (FuncLit (Other [Other []])
        (BlockStmt [AssignStmt [Ident v] [UnaryExpr ARROW (Ident c)]])) [])]"
  by (simp add: receiveSpawnFunction_def collectGoroutines_preorder preorder_node
      preorder_NilNode)

text \<open>
  C5. A spawn statement with an inline body whose context has has-receive and neither
  has-close nor has-cancel-signal gets a receive-leak finding from the Task Leak Detector,
  run on any tree that holds the statement: a Smell finding of Warning severity whose
  message names \<open>channel_receive_leak\<close> and contains \<open>confidence: 0.42\<close>. A spawn whose
  body is the single statement \<open>v := <-c\<close> gets that finding and no other, and the
  detector run on a function that holds just this spawn returns exactly one finding.
\<close>

theorem receive_leak_reported:
  "(GoStmt p (CallExpr (FuncLit ty body) args) \<in> set (preorder tree)
    \<and> hasChannelReceive (spawnContext fset (GoStmt p (CallExpr (FuncLit ty body) args)))
    \<and> \<not> hasChannelClose (spawnContext fset (GoStmt p (CallExpr (FuncLit ty body) args)))
    \<and> \<not> hasContextCancel (spawnContext fset (GoStmt p (CallExpr (FuncLit ty body) args)))
    \<longrightarrow> (\<exists>f. f \<in> set (DetectLeaks Clean fset tree)
            \<and> findingType f = FindingTypeSmell \<and> severity f = SeverityWarning
            \<and> Contains (message f) ''channel_receive_leak''
            \<and> Contains (message f) ''confidence: 0.42''))
   \<and> (\<exists>f. analyzeGoroutine Clean fset
              (GoStmt p (CallExpr (FuncLit ty
                 (BlockStmt [AssignStmt [Ident v] [UnaryExpr ARROW (Ident c)]])) args)) = [f]
            \<and> findingType f = FindingTypeSmell \<and> severity f = SeverityWarning
            \<and> Contains (message f) ''channel_receive_leak''
            \<and> Contains (message f) ''confidence: 0.42'')
   \<and> (\<exists>f. DetectLeaks Clean fset (receiveSpawnFunction name p' p v c) = [f]
            \<and> findingType f = FindingTypeSmell \<and> severity f = SeverityWarning
            \<and> Contains (message f) ''channel_receive_leak''
            \<and> Contains (message f) ''confidence: 0.42'')"
proof (intro conjI impI)
  let ?go = "GoStmt p (CallExpr (FuncLit ty body) args)"
  let ?ctx = "spawnContext fset ?go"
  let ?f = "\<lparr>findingId = ''channel_receive_leak_'' @ functionName ?ctx @ ''_''
                @ showInt (Line (position ?ctx)),
             findingType = FindingTypeSmell, location = locationOf Clean (position ?ctx),
             message = ''Potential goroutine leak in '' @ functionName ?ctx
                @ '': channel_receive_leak detected - channel receive without close operation (confidence: 0.42)'',
             severity = SeverityWarning\<rparr>"
  assume a: "?go \<in> set (preorder tree)
    \<and> hasChannelReceive ?ctx \<and> \<not> hasChannelClose ?ctx \<and> \<not> hasContextCancel ?ctx"
  then have "?f \<in> set (analyzeGoroutine Clean fset ?go)"
    by (simp add: analyzeGoroutine_def checkLeakPatterns_def Let_def findingOf_valid)
  with a have "?f \<in> set (DetectLeaks Clean fset tree)"
    by (intro DetectLeaks_member) simp_all
  moreover have "Contains (message ?f) ''channel_receive_leak''"
    using receive_leak_kind by simp
  moreover have "Contains (message ?f) ''confidence: 0.42''"
    using receive_leak_message by simp
  ultimately show "\<exists>f. f \<in> set (DetectLeaks Clean fset tree)
            \<and> findingType f = FindingTypeSmell \<and> severity f = SeverityWarning
            \<and> Contains (message f) ''channel_receive_leak''
            \<and> Contains (message f) ''confidence: 0.42''"
    by (intro exI[of _ ?f]) simp
next
  show one: "\<exists>f. analyzeGoroutine Clean fset
              (GoStmt p (CallExpr (FuncLit ty
                 (BlockStmt [AssignStmt [Ident v] [UnaryExpr ARROW (Ident c)]])) args)) = [f]
            \<and> findingType f = FindingTypeSmell \<and> severity f = SeverityWarning
            \<and> Contains (message f) ''channel_receive_leak''
            \<and> Contains (message f) ''confidence: 0.42''"
    for ty args
    using receive_leak_kind[of "''anonymous_goroutine''"]
      receive_leak_message[of "''anonymous_goroutine''"]
    by (simp add: analyzeGoroutine_def spawnContext_assign_receive checkLeakPatterns_def
        emptyContext_def findingOf_valid del: spawnContext.simps)
  show "\<exists>f. DetectLeaks Clean fset (receiveSpawnFunction name p' p v c) = [f]
            \<and> findingType f = FindingTypeSmell \<and> severity f = SeverityWarning
            \<and> Contains (message f) ''channel_receive_leak''
            \<and> Contains (message f) ''confidence: 0.42''"
    using one[of "Other [Other []]" "[]"]
    by (simp add: DetectLeaks_def collectGoroutines_receiveSpawnFunction
        del: spawnContext.simps)
qed

theorem receive_leak_reported_witness:
  "receiveOnlySpawn \<in> set (preorder receiveOnlySpawn)
   \<and> hasChannelReceive (spawnContext fsLine receiveOnlySpawn)
   \<and> \<not> hasChannelClose (spawnContext fsLine receiveOnlySpawn)
   \<and> \<not> hasContextCancel (spawnContext fsLine receiveOnlySpawn)
   \<and> (\<exists>f. f \<in> set (DetectLeaks sameFile fsLine receiveOnlySpawn)
          \<and> findingType f = FindingTypeSmell \<and> severity f = SeverityWarning
          \<and> Contains (message f) ''channel_receive_leak''
          \<and> Contains (message f) ''confidence: 0.42'')
   \<and> length (DetectLeaks sameFile fsLine receiveOnlySpawn) = 1"
proof -
  let ?go = "GoStmt 5 (CallExpr (FuncLit (Other [Other []])
        (BlockStmt [AssignStmt [Ident ''val''] [UnaryExpr ARROW (Ident ''ch'')]])) [])"
  have flags: "?go \<in> set (preorder ?go)
     \<and> hasChannelReceive (spawnContext fsLine ?go)
     \<and> \<not> hasChannelClose (spawnContext fsLine ?go)
     \<and> \<not> hasContextCancel (spawnContext fsLine ?go)"
    by (simp add: leak_eval)
  have one: "length (DetectLeaks sameFile fsLine ?go) = 1"
    by (simp add: leak_eval checkLeakPatterns_def findingOf_valid)
  have found: "\<exists>f. f \<in> set (DetectLeaks sameFile fsLine ?go)
          \<and> findingType f = FindingTypeSmell \<and> severity f = SeverityWarning
          \<and> Contains (message f) ''channel_receive_leak''
          \<and> Contains (message f) ''confidence: 0.42''"
    by (rule mp[OF receive_leak_reported[where tree = ?go and Clean = sameFile
            and fset = fsLine, THEN conjunct1] flags])
  note a = flags[THEN conjunct1]
  note b = flags[THEN conjunct2, THEN conjunct1]
  note c = flags[THEN conjunct2, THEN conjunct2, THEN conjunct1]
  note d = flags[THEN conjunct2, THEN conjunct2, THEN conjunct2]
  show ?thesis
    unfolding receiveOnlySpawn_def
    by (rule conjI[OF a conjI[OF b conjI[OF c conjI[OF d conjI[OF found one]]]]])
qed

section \<open>Properties of the Concurrency Bug Detector\<close>











subsection \<open>The lock-imbalance rule on a single Lock call\<close>

text \<open>
  A mutex selector is a selector expression named \<open>Lock\<close>, \<open>RLock\<close>, \<open>Unlock\<close> or
  \<open>RUnlock\<close>; a tree is mutex-free when it holds none. \<open>holdsOneLock m n\<close>: the tree
  \<open>n\<close> holds the call \<open>m.Lock()\<close> once, outside the inline body of every spawn
  statement, and no other mutex selector.
\<close>

definition isMutexSelector :: "node \<Rightarrow> bool" where
  "isMutexSelector n =
     (case asSelectorExpr n of Some (x, sel) \<Rightarrow> mutexTag sel \<noteq> None | None \<Rightarrow> False)"

definition mutexFree :: "node \<Rightarrow> bool" where
  "mutexFree n = list_all (\<lambda>k. \<not> isMutexSelector k) (preorder n)"

definition lockCall :: "string \<Rightarrow> node" where
  "lockCall m = CallExpr (SelectorExpr (Ident m) ''Lock'') []"

inductive holdsOneLock :: "string \<Rightarrow> node \<Rightarrow> bool" for m :: string where
  here: "holdsOneLock m (lockCall m)"
| below: "children n = pre @ c # post \<Longrightarrow> goFuncLitBody n = None \<Longrightarrow> \<not> isMutexSelector n
          \<Longrightarrow> list_all mutexFree pre \<Longrightarrow> holdsOneLock m c \<Longrightarrow> list_all mutexFree post
          \<Longrightarrow> holdsOneLock m n"

definition isDeadlock :: "blockingPattern \<Rightarrow> bool" where
  "isDeadlock pat = (cause pat = BlockingCauseDeadlock)"

definition deadlocks :: "blockingState \<Rightarrow> blockingPattern list" where
  "deadlocks st = filter isDeadlock (patterns st)"

lemma nestedMutexVisit_other: "\<not> isMutexSelector k \<Longrightarrow> nestedMutexVisit k mx = mx"
  by (auto simp: nestedMutexVisit_def isMutexSelector_def identSelector_def split: option.splits)

lemma directMutexOp_other: "\<not> isMutexSelector k \<Longrightarrow> directMutexOp k mx = mx"
  by (auto simp: directMutexOp_def isMutexSelector_def identSelector_def split: option.splits)

lemma nestedMutexVisit_empty: "nestedMutexVisit k [] = []"
  by (auto simp: nestedMutexVisit_def hasKey_def split: option.splits)

lemma fold_nested_free: "list_all (\<lambda>k. \<not> isMutexSelector k) xs \<Longrightarrow> fold nestedMutexVisit xs mx = mx"
  by (induction xs) (auto simp: nestedMutexVisit_other)

lemma fold_nested_empty: "fold nestedMutexVisit xs [] = []"
  by (induction xs) (auto simp: nestedMutexVisit_empty)

lemma mutexFree_self: "mutexFree n \<Longrightarrow> \<not> isMutexSelector n"
  by (cases "n = NilNode") (auto simp: mutexFree_def preorder_node isMutexSelector_def)

lemma mutexFree_children: "mutexFree n \<Longrightarrow> list_all mutexFree (children n)"
  by (cases "n = NilNode") (auto simp: mutexFree_def preorder_node list_all_iff)

lemma callFun_child: "callFun n = NilNode \<or> callFun n \<in> set (children n)"
  by (cases n) (auto simp: callFun_def)

lemma isMutexSelector_NilNode: "\<not> isMutexSelector NilNode"
  by (simp add: isMutexSelector_def)

lemma mutexFree_callFun: "mutexFree n \<Longrightarrow> \<not> isMutexSelector (callFun n)"
  using callFun_child[of n] mutexFree_children[of n] mutexFree_self
  by (auto simp: list_all_iff isMutexSelector_NilNode)

lemma analyzeCallForBlocking_free: "mutexFree n \<Longrightarrow> analyzeCallForBlocking n mx = mx"
  by (simp add: analyzeCallForBlocking_def inspect_preorder directMutexOp_other mutexFree_callFun
      fold_nested_free mutexFree_def[symmetric])

lemma isDeadlock_channelPatterns: "filter isDeadlock (channelPatterns m) = []"
  by (simp add: channelPatterns_def isDeadlock_def channelPattern_def filter_empty_conv)

lemma blockingVisit_free:
  "mutexFree n \<Longrightarrow> mutexOps (blockingVisit n st) = mutexOps st \<and> deadlocks (blockingVisit n st) = deadlocks st"
  by (cases n) (auto simp: analyzeCallForBlocking_free deadlocks_def isDeadlock_def selectPattern_def split: option.splits)

lemma goFuncLitBody_free: "goFuncLitBody n = Some body \<Longrightarrow> mutexFree n \<Longrightarrow> mutexFree body"
proof -
  assume a: "goFuncLitBody n = Some body" and f: "mutexFree n"
  from a obtain p ty args where n: "n = GoStmt p (CallExpr (FuncLit ty body) args)"
    by (auto simp: goFuncLitBody_def callFun_def split: option.splits
          elim!: asGoStmt.elims asFuncLit.elims asCallExpr.elims)
  from f show ?thesis unfolding n mutexFree_def
    by (simp add: preorder_node)
qed

lemma walkBlocking_free:
  "mutexFree n \<Longrightarrow>
   mutexOps (walkBlocking n st) = mutexOps st \<and> deadlocks (walkBlocking n st) = deadlocks st"
proof (induction n st rule: walkBlocking.induct)
  case (1 n st)
  show ?case
  proof (cases "n = NilNode")
    case True
    then show ?thesis by (simp add: walkBlocking_NilNode)
  next
    case False
    let ?st0 = "case goFuncLitBody n of
          Some body \<Rightarrow>
            st\<lparr>patterns := patterns st @ finishBlocking (walkBlocking body emptyBlockingState)\<rparr>
        | None \<Rightarrow> blockingVisit n st"
    have st0: "mutexOps ?st0 = mutexOps st \<and> deadlocks ?st0 = deadlocks st"
    proof (cases "goFuncLitBody n")
      case None
      then show ?thesis using blockingVisit_free[OF "1.prems"] by simp
    next
      case (Some body)
      have "mutexFree body" using goFuncLitBody_free[OF Some "1.prems"] .
      from "1.IH"(1)[OF False Some this]
      have "mutexOps (walkBlocking body emptyBlockingState) = []"
           "deadlocks (walkBlocking body emptyBlockingState) = []"
        by (simp_all add: emptyBlockingState_def deadlocks_def)
      then show ?thesis using Some
        by (simp add: deadlocks_def finishBlocking_def isDeadlock_channelPatterns mutexPatterns_def)
    qed
    have kids: "mutexOps (fold walkBlocking xs s) = mutexOps s \<and> deadlocks (fold walkBlocking xs s) = deadlocks s"
      if "set xs \<subseteq> set (children n)" for xs s
      using that
    proof (induction xs arbitrary: s)
      case Nil
      then show ?case by simp
    next
      case (Cons x xs)
      have "mutexFree x" using Cons.prems mutexFree_children[OF "1.prems"] by (auto simp: list_all_iff)
      with "1.IH"(2)[OF False, of x s] Cons.prems
      have "mutexOps (walkBlocking x s) = mutexOps s \<and> deadlocks (walkBlocking x s) = deadlocks s"
        by simp
      with Cons.IH[of "walkBlocking x s"] Cons.prems show ?case by simp
    qed
    show ?thesis using kids[of "children n" ?st0] st0 False
      by (simp add: walkBlocking_node)
  qed
qed


lemma fold_walkBlocking_free:
  "list_all mutexFree xs \<Longrightarrow>
   mutexOps (fold walkBlocking xs s) = mutexOps s \<and> deadlocks (fold walkBlocking xs s) = deadlocks s"
  by (induction xs arbitrary: s) (auto simp: walkBlocking_free)

lemma walkBlocking_lockCall:
  "mutexOps st = [] \<Longrightarrow>
   mutexOps (walkBlocking (lockCall m) st) = [(m, [''lock'', ''lock''])]
   \<and> deadlocks (walkBlocking (lockCall m) st) = deadlocks st"
  by (simp add: lockCall_def bug_eval deadlocks_def)

lemma holdsOneLock_not_selector: "holdsOneLock m c \<Longrightarrow> \<not> isMutexSelector c"
  by (erule holdsOneLock.cases) (auto simp: lockCall_def isMutexSelector_def)

lemma blockingVisit_empty:
  "\<not> isMutexSelector (callFun n) \<Longrightarrow> mutexOps st = [] \<Longrightarrow>
   mutexOps (blockingVisit n st) = [] \<and> deadlocks (blockingVisit n st) = deadlocks st"
  by (cases n)
     (auto simp: analyzeCallForBlocking_def inspect_preorder directMutexOp_other
        fold_nested_empty deadlocks_def isDeadlock_def selectPattern_def split: option.splits)

lemma walkBlocking_holdsOneLock:
  "holdsOneLock m n \<Longrightarrow> mutexOps st = [] \<Longrightarrow>
   mutexOps (walkBlocking n st) = [(m, [''lock'', ''lock''])]
   \<and> deadlocks (walkBlocking n st) = deadlocks st"
proof (induction arbitrary: st rule: holdsOneLock.induct)
  case here
  then show ?case by (rule walkBlocking_lockCall)
next
  case (below n pre c post)
  have n: "n \<noteq> NilNode" using below.hyps(1) by auto
  have "callFun n = NilNode \<or> callFun n \<in> set pre \<or> callFun n = c \<or> callFun n \<in> set post"
    using callFun_child[of n] below.hyps(1) by auto
  then have "\<not> isMutexSelector (callFun n)"
    using below.hyps(4,5,6) holdsOneLock_not_selector mutexFree_self
    by (auto simp: list_all_iff isMutexSelector_NilNode)
  from blockingVisit_empty[OF this below.prems]
  have v: "mutexOps (blockingVisit n st) = []" "deadlocks (blockingVisit n st) = deadlocks st"
    by simp_all
  let ?s1 = "fold walkBlocking pre (blockingVisit n st)"
  have s1: "mutexOps ?s1 = []" "deadlocks ?s1 = deadlocks st"
    using fold_walkBlocking_free[OF below.hyps(4), of "blockingVisit n st"] v by simp_all
  let ?s2 = "walkBlocking c ?s1"
  have s2: "mutexOps ?s2 = [(m, [''lock'', ''lock''])]" "deadlocks ?s2 = deadlocks st"
    using below.IH[OF s1(1)] s1(2) by simp_all
  have "mutexOps (fold walkBlocking post ?s2) = [(m, [''lock'', ''lock''])]
        \<and> deadlocks (fold walkBlocking post ?s2) = deadlocks st"
    using fold_walkBlocking_free[OF below.hyps(6), of ?s2] s2 by simp
  then show ?case using n below.hyps(1,2)
    by (simp add: walkBlocking_node)
qed

definition isCritical :: "AnalysisFinding \<Rightarrow> bool" where
  "isCritical f = (severity f = SeverityCritical)"

lemma isCritical_blockingFinding:
  "isCritical (blockingFinding Clean fset name p pat) = isDeadlock pat"
  by (cases "cause pat") (simp_all add: isCritical_def blockingFinding_fields isDeadlock_def)

lemma holdsOneLock_not_Nil: "holdsOneLock m n \<Longrightarrow> n \<noteq> NilNode"
  by (erule holdsOneLock.cases) (auto simp: lockCall_def)

definition spawnedLockFunction :: node where
  "spawnedLockFunction =
     FuncDecl ''test'' 3 (Other [Other []])
       (BlockStmt [GoStmt 4 (CallExpr (FuncLit (Other [Other []])
          (BlockStmt [ExprStmt (CallExpr (SelectorExpr (Ident ''mu'') ''Lock'') [])])) [])])"

text \<open>
  The function \<open>func test() { go func() { mu.Lock() }() }\<close> holds one \<open>Lock()\<close>
  call on \<open>mu\<close> and no \<open>Unlock()\<close>. The spawn body is analysed by the recursive call
  and again when the walk descends into the spawn statement: two deadlock findings.
\<close>

theorem spawned_lock_reported_twice: "length (filter isCritical (DetectBugs sameFile fsLine spawnedLockFunction)) = 2"
  by (simp add: spawnedLockFunction_def bug_eval isCritical_def blockingFinding_fields mutexPattern_def)

lemma holdsOneLock_example:
  "holdsOneLock ''mu'' (BlockStmt [Other [Ident ''mu''], ExprStmt (lockCall ''mu'')])"
proof -
  have inner: "holdsOneLock ''mu'' (ExprStmt (lockCall ''mu''))"
    by (rule holdsOneLock.below[where pre = "[]" and post = "[]" and c = "lockCall ''mu''"])
       (simp_all add: goFuncLitBody_def isMutexSelector_def holdsOneLock.here)
  show ?thesis
    by (rule holdsOneLock.below[where pre = "[Other [Ident ''mu'']]" and post = "[]"
          and c = "ExprStmt (lockCall ''mu'')"])
       (simp_all add: goFuncLitBody_def isMutexSelector_def mutexFree_def preorder_node
          preorder_NilNode inner)
qed

text \<open>
  C1 (as amended). A function whose body holds the call \<open>m.Lock()\<close> on an identifier
  once, outside the inline body of every spawn statement, and no other selector named
  \<open>Lock\<close>, \<open>RLock\<close>, \<open>Unlock\<close> or \<open>RUnlock\<close>, gets exactly one deadlock finding: the
  call is tallied twice (by the test of the callee and by the nested walk over the call),
  and 2 > 0 + 1. The finding is a Bug finding of Critical severity, the only Critical
  finding of the function.
\<close>

theorem single_lock_one_deadlock:
  assumes "holdsOneLock m body"
  shows "\<exists>f. filter isCritical (analyzeFunctionConcurrency Clean fset (FuncDecl name p ty body)) = [f]
           \<and> findingType f = FindingTypeBug \<and> severity f = SeverityCritical
           \<and> Contains (message f) ''deadlock''"
proof -
  from walkBlocking_holdsOneLock[OF assms, of emptyBlockingState]
  have w: "mutexOps (walkBlocking body emptyBlockingState) = [(m, [''lock'', ''lock''])]"
          "deadlocks (walkBlocking body emptyBlockingState) = []"
    by (simp_all add: emptyBlockingState_def deadlocks_def)
  have "filter isDeadlock (analyzeBlockingPatterns body) = [mutexPattern (m, [''lock'', ''lock''])]"
    using w
    by (simp add: analyzeBlockingPatterns_def finishBlocking_def isDeadlock_channelPatterns
        deadlocks_def mutexPatterns_def hasPotentialDeadlock_def countOps_def isDeadlock_def
        mutexPattern_def)
  then have "filter isCritical (analyzeFunctionConcurrency Clean fset (FuncDecl name p ty body))
        = [blockingFinding Clean fset name p (mutexPattern (m, [''lock'', ''lock'']))]"
    using holdsOneLock_not_Nil[OF assms]
    by (simp add: detectRaceConditions_empty filter_map comp_def isCritical_blockingFinding)
  then show ?thesis
    using deadlock_message
    by (simp add: blockingFinding_fields mutexPattern_def)
qed

theorem single_lock_one_deadlock_witness:
  "holdsOneLock ''mu'' (BlockStmt [Other [Ident ''mu''], ExprStmt (lockCall ''mu'')])
   \<and> (\<exists>f. filter isCritical
              (analyzeFunctionConcurrency sameFile fsLine
                 (FuncDecl ''test'' 3 (Other [Other []])
                    (BlockStmt [Other [Ident ''mu''], ExprStmt (lockCall ''mu'')]))) = [f]
          \<and> findingType f = FindingTypeBug \<and> severity f = SeverityCritical
          \<and> Contains (message f) ''deadlock'')"
  by (rule conjI[OF holdsOneLock_example single_lock_one_deadlock[OF holdsOneLock_example]])

subsection \<open>A spawned select on two channels\<close>







end
